theory Spec2Isabelle
  imports Main
begin

section \<open>The data model of dpxdt/server/api.py\<close>

text \<open>
  The four tables of the module (classes \<open>Build\<close>, \<open>Release\<close>, \<open>Artifact\<close>, \<open>Run\<close>) are
  records; a table is the list of its rows in insertion order. Column names carry a prefix
  because record fields are global constants. Timestamps (\<open>datetime.utcnow\<close>, the column
  default of \<open>created\<close>) are natural numbers handed to the handler that inserts the row.
\<close>

datatype status = RECEIVING | PROCESSING | REVIEWING | BAD | GOOD

record build_row =
  build_id :: int
  build_created :: nat
  build_name :: string

record release_row =
  rel_id :: int
  rel_name :: string
  rel_number :: int
  rel_created :: nat
  rel_status :: status
  rel_build_id :: int

record artifact_row =
  art_id :: string
  art_created :: nat
  art_data :: string
  art_content_type :: "string option"

text \<open>
  The diff columns of a run are \<open>db.String\<close> columns: a cell holds text. \<open>report_run\<close>
  assigns them a \<open>str\<close> (\<open>type=str\<close>); \<open>report_pdiff\<close> assigns them an \<open>int\<close>
  (\<open>type=int\<close>), which the column stores as its decimal text.
\<close>

record run_row =
  run_id :: int
  run_release_id :: int
  run_name :: string
  run_created :: nat
  run_image :: "string option"
  run_log :: "string option"
  run_config :: "string option"
  run_previous_id :: "int option"
  run_needs_diff :: bool
  run_diff_image :: "string option"
  run_diff_log :: "string option"

text \<open>
  The committed state: the four tables and the work queue. A handler returns \<open>Inr\<close> with
  its response and the state it committed, or \<open>Inl\<close> with the error it raised; a request
  that raises never reaches \<open>db.session.commit()\<close>, so the committed state stays the one
  the handler was given.
\<close>

record db =
  builds :: "build_row list"
  releases :: "release_row list"
  artifacts :: "artifact_row list"
  runs :: "run_row list"
  queue :: "(string \<times> int) list"

datatype error = AssertFailed string | DriverError | TypeError

section \<open>Request forms and Python values\<close>

text \<open>
  \<open>request.form\<close> is a multi-dict of strings; \<open>get\<close> returns the first value of a key.
  Form values are ASCII text, on which \<open>type=str\<close> is the identity.
\<close>

type_synonym form = "(string \<times> string) list"

definition form_get :: "form \<Rightarrow> string \<Rightarrow> string option" where
  "form_get f k = map_of f k"

text \<open>Python 2's \<open>int(s)\<close> on a unicode string, a character being its code point:
  surrounding whitespace (tab to carriage return, the separators 0x1C to 0x1F, space, 0x85
  and 0xA0), an optional sign, decimal digits.\<close>

definition is_space :: "char \<Rightarrow> bool" where
  "is_space c = ((9 \<le> (of_char c :: nat) \<and> (of_char c :: nat) \<le> 13)
     \<or> (28 \<le> (of_char c :: nat) \<and> (of_char c :: nat) \<le> 32)
     \<or> (of_char c :: nat) = 133 \<or> (of_char c :: nat) = 160)"

definition strip :: "string \<Rightarrow> string" where
  "strip s = rev (dropWhile is_space (rev (dropWhile is_space s)))"

definition is_digit :: "char \<Rightarrow> bool" where
  "is_digit c = (48 \<le> (of_char c :: nat) \<and> (of_char c :: nat) \<le> 57)"

definition digits_value :: "string \<Rightarrow> int option" where
  "digits_value s =
     (if s \<noteq> [] \<and> list_all is_digit s
      then Some (fold (\<lambda>c acc. 10 * acc + (int (of_char c) - 48)) s 0)
      else None)"

definition py_int :: "string \<Rightarrow> int option" where
  "py_int s =
     (case strip s of
        [] \<Rightarrow> None
      | c # cs \<Rightarrow>
          if c = CHR ''-'' then map_option uminus (digits_value cs)
          else if c = CHR ''+'' then digits_value cs
          else digits_value (c # cs))"

text \<open>\<open>request.form.get(key, type=int)\<close>: the default \<open>None\<close> when the key is absent or
  \<open>int\<close> raises \<open>ValueError\<close>.\<close>

definition form_get_int :: "form \<Rightarrow> string \<Rightarrow> int option" where
  "form_get_int f k = (case form_get f k of None \<Rightarrow> None | Some v \<Rightarrow> py_int v)"

text \<open>Truthiness, as \<open>or\<close>, \<open>not\<close> and \<open>if\<close> read a value.\<close>

definition truthy :: "string option \<Rightarrow> bool" where
  "truthy v = (case v of None \<Rightarrow> False | Some s \<Rightarrow> s \<noteq> [])"

text \<open>The decimal text of an integer, as a \<open>String\<close> column stores an \<open>int\<close>.\<close>

function nat_digits :: "nat \<Rightarrow> string" where
  "nat_digits n =
     (if n < 10 then [''0123456789'' ! n]
      else nat_digits (n div 10) @ [''0123456789'' ! (n mod 10)])"
  by pat_completeness auto
termination
  by (relation "measure id") auto

definition column_text :: "int \<Rightarrow> string" where
  "column_text i = (if i < 0 then CHR ''-'' # nat_digits (nat (- i)) else nat_digits (nat i))"

section \<open>Queries\<close>

text \<open>\<open>.order_by(col.desc()).first()\<close>: a row with the greatest key, the earliest such row
  of the table.\<close>

fun order_by_desc_first :: "('a \<Rightarrow> 'k::linorder) \<Rightarrow> 'a list \<Rightarrow> 'a option" where
  "order_by_desc_first f [] = None"
| "order_by_desc_first f (x # xs) =
     (case order_by_desc_first f xs of
        None \<Rightarrow> Some x
      | Some y \<Rightarrow> if f x < f y then Some y else Some x)"

text \<open>The primary key a new row gets at flush: 1 in an empty table, else one more than the
  greatest key in use.\<close>

fun fresh_id :: "int list \<Rightarrow> int" where
  "fresh_id [] = 1"
| "fresh_id (i # ids) = fold max ids i + 1"

text \<open>
  \<open>Release.query.get(ident)\<close> looks a row up by primary key. \<open>report_pdiff\<close> passes the
  integer \<open>run.release_id\<close>; \<open>runs_done\<close> passes the \<open>Release\<close> object itself, which the
  database driver cannot bind as the value of the key: the query raises.
\<close>

datatype ident = Id int | Obj release_row

definition release_query_get :: "ident \<Rightarrow> db \<Rightarrow> error + release_row option" where
  "release_query_get k s =
     (case k of
        Id i \<Rightarrow> Inr (find (\<lambda>r. rel_id r = i) (releases s))
      | Obj r \<Rightarrow> Inl DriverError)"

text \<open>\<open>db.session.add(release)\<close> after an attribute assignment: the row of that primary key
  is replaced.\<close>

definition session_add_release :: "release_row \<Rightarrow> db \<Rightarrow> db" where
  "session_add_release r s =
     s\<lparr>releases := map (\<lambda>x. if rel_id x = rel_id r then r else x) (releases s)\<rparr>"

definition session_add_run :: "run_row \<Rightarrow> db \<Rightarrow> db" where
  "session_add_run r s =
     s\<lparr>runs := map (\<lambda>x. if run_id x = run_id r then r else x) (runs s)\<rparr>"

text \<open>Modelled from the spec: \<open>work_queue.add\<close> (module \<open>work_queue\<close> is not in the source)
  is \<open>WorkDispatcher.enqueue(topic, payload)\<close>, fire-and-forget: the job is appended to the
  queue. The payload is the run id.\<close>

definition work_queue_add :: "string \<Rightarrow> int \<Rightarrow> db \<Rightarrow> db" where
  "work_queue_add topic payload s = s\<lparr>queue := queue s @ [(topic, payload)]\<rparr>"

section \<open>The handlers\<close>

text \<open>Modelled from the spec: \<open>utils.jsonify_assert(cond, message)\<close> (module \<open>utils\<close> is not
  in the source) raises a validation error carrying the message when the condition is
  false. It is written \<open>if \<not> cond then Inl (AssertFailed message) else \<dots>\<close> below.
  \<open>logging\<close> calls change neither the state nor the response and are left out.\<close>

definition create_build :: "nat \<Rightarrow> form \<Rightarrow> db \<Rightarrow> error + ((int \<times> string) \<times> db)" where
  "create_build now f s =
     (let name = form_get f ''name'' in
      if \<not> truthy name then Inl (AssertFailed ''name required'')
      else
        let build = \<lparr>build_id = fresh_id (map build_id (builds s)),
                     build_created = now, build_name = the name\<rparr>
        in Inr ((build_id build, the name), s\<lparr>builds := builds s @ [build]\<rparr>))"

definition create_release ::
  "nat \<Rightarrow> form \<Rightarrow> db \<Rightarrow> error + ((int \<times> string \<times> int) \<times> db)" where
  "create_release now f s =
     (case form_get_int f ''build_id'' of
        None \<Rightarrow> Inl (AssertFailed ''build_id required'')
      | Some bid \<Rightarrow>
          let name = form_get f ''name'' in
          if \<not> truthy name then Inl (AssertFailed ''name required'')
          else
            let last_candidate =
                  order_by_desc_first rel_number
                    (filter (\<lambda>r. rel_build_id r = bid \<and> rel_name r = the name) (releases s));
                number = (case last_candidate of None \<Rightarrow> 1 | Some c \<Rightarrow> 1 + rel_number c);
                release = \<lparr>rel_id = fresh_id (map rel_id (releases s)), rel_name = the name,
                           rel_number = number, rel_created = now, rel_status = RECEIVING,
                           rel_build_id = bid\<rparr>
            in Inr ((bid, the name, number), s\<lparr>releases := releases s @ [release]\<rparr>))"

definition check_release_done_processing ::
  "ident \<Rightarrow> db \<Rightarrow> error + (bool \<times> db)" where
  "check_release_done_processing release_id s =
     (case release_query_get release_id s of
        Inl e \<Rightarrow> Inl e
      | Inr None \<Rightarrow> Inr (False, s)
      | Inr (Some release) \<Rightarrow>
          if rel_status release \<noteq> PROCESSING then Inr (False, s)
          else if list_ex run_needs_diff
                    (filter (\<lambda>run. run_release_id run = rel_id release) (runs s))
          then Inr (False, s)
          else Inr (True, session_add_release (release\<lparr>rel_status := REVIEWING\<rparr>) s))"

definition get_release_params :: "form \<Rightarrow> error + (int \<times> string \<times> int)" where
  "get_release_params f =
     (case form_get_int f ''build_id'' of
        None \<Rightarrow> Inl (AssertFailed ''build_id required'')
      | Some bid \<Rightarrow>
          let name = form_get f ''name'' in
          if \<not> truthy name then Inl (AssertFailed ''name required'')
          else
            (case form_get_int f ''number'' of
               None \<Rightarrow> Inl (AssertFailed ''number required'')
             | Some number \<Rightarrow> Inr (bid, the name, number)))"

definition find_release :: "int \<Rightarrow> string \<Rightarrow> int \<Rightarrow> db \<Rightarrow> release_row option" where
  "find_release bid name number s =
     find (\<lambda>r. rel_build_id r = bid \<and> rel_name r = name \<and> rel_number r = number) (releases s)"

definition report_run :: "nat \<Rightarrow> form \<Rightarrow> db \<Rightarrow> error + (run_row \<times> db)" where
  "report_run now f s =
     (case get_release_params f of
        Inl e \<Rightarrow> Inl e
      | Inr (bid, name, number) \<Rightarrow>
          (case find_release bid name number s of
             None \<Rightarrow> Inl (AssertFailed ''release does not exist'')
           | Some release \<Rightarrow>
               let current_image = form_get f ''image'' in
               if \<not> truthy current_image then Inl (AssertFailed ''image must be supplied'')
               else
                 let current_log = form_get f ''log'';
                     current_config = form_get f ''config'';
                     no_diff = form_get f ''no_diff'';
                     diff_image = form_get f ''diff_image'';
                     diff_log = form_get f ''diff_log'';
                     needs_diff = (\<not> (truthy no_diff \<or> truthy diff_image \<or> truthy diff_log));
                     last_good_release =
                       order_by_desc_first rel_created
                         (filter (\<lambda>r. rel_build_id r = bid \<and> rel_name r = name
                                       \<and> rel_status r = GOOD) (releases s));
                     previous_id =
                       (case last_good_release of
                          None \<Rightarrow> None
                        | Some g \<Rightarrow>
                            (case find (\<lambda>r. run_release_id r = rel_id g \<and> run_name r = name)
                                    (runs s) of
                               None \<Rightarrow> None
                             | Some last_good_run \<Rightarrow> Some (run_id last_good_run)));
                     run = \<lparr>run_id = fresh_id (map run_id (runs s)),
                            run_release_id = rel_id release,
                            run_name = name,
                            run_created = now,
                            run_image = current_image,
                            run_log = current_log,
                            run_config = current_config,
                            run_previous_id = previous_id,
                            run_needs_diff = needs_diff,
                            run_diff_image = diff_image,
                            run_diff_log = diff_log\<rparr>;
                     s1 = s\<lparr>runs := runs s @ [run]\<rparr>;
                     s2 = (if needs_diff then work_queue_add ''run-pdiff'' (run_id run) s1
                           else s1)
                 in Inr (run, s2)))"

definition report_pdiff :: "form \<Rightarrow> db \<Rightarrow> error + db" where
  "report_pdiff f s =
     (case form_get_int f ''run_id'' of
        None \<Rightarrow> Inl (AssertFailed ''run_id required'')
      | Some rid \<Rightarrow>
          let no_diff = form_get f ''no_diff'' in
          (case find (\<lambda>r. run_id r = rid) (runs s) of
             None \<Rightarrow> Inl (AssertFailed ''Run does not exist'')
           | Some run \<Rightarrow>
               let run1 = run\<lparr>run_needs_diff :=
                            (\<not> (truthy no_diff \<or> truthy (run_diff_image run)
                                 \<or> truthy (run_diff_log run)))\<rparr>;
                   run2 = run1\<lparr>run_diff_image :=
                            map_option column_text (form_get_int f ''diff_image'')\<rparr>;
                   run3 = run2\<lparr>run_diff_log :=
                            map_option column_text (form_get_int f ''diff_log'')\<rparr>;
                   s1 = session_add_run run3 s
               in (case check_release_done_processing (Id (run_release_id run3)) s1 of
                     Inl e \<Rightarrow> Inl e
                   | Inr (_, s2) \<Rightarrow> Inr s2)))"

definition runs_done :: "form \<Rightarrow> db \<Rightarrow> error + db" where
  "runs_done f s =
     (case get_release_params f of
        Inl e \<Rightarrow> Inl e
      | Inr (bid, name, number) \<Rightarrow>
          (case find_release bid name number s of
             None \<Rightarrow> Inl (AssertFailed ''Release does not exist'')
           | Some release \<Rightarrow>
               let release1 = release\<lparr>rel_status := PROCESSING\<rparr>;
                   s1 = session_add_release release1 s
               in (case check_release_done_processing (Obj release1) s1 of
                     Inl e \<Rightarrow> Inl e
                   | Inr (_, s2) \<Rightarrow> Inr s2)))"

text \<open>
  Python's \<open>fmt % args\<close> for a tuple \<open>args\<close>, each argument given by its \<open>repr\<close>, with
  \<open>%r\<close> the only conversion: every \<open>%r\<close> consumes one argument, and a missing or a
  left-over argument raises \<open>TypeError\<close>.
\<close>

fun py_format :: "string \<Rightarrow> string list \<Rightarrow> error + string" where
  "py_format [] args = (if args = [] then Inr [] else Inl TypeError)"
| "py_format [c] args =
     (case py_format [] args of Inl e \<Rightarrow> Inl e | Inr t \<Rightarrow> Inr (c # t))"
| "py_format (c # c' # cs) args =
     (if c = CHR 0x25 \<and> c' = CHR ''r''
      then (case args of
              [] \<Rightarrow> Inl TypeError
            | a # rest \<Rightarrow>
                (case py_format cs rest of Inl e \<Rightarrow> Inl e | Inr t \<Rightarrow> Inr (a @ t)))
      else (case py_format (c' # cs) args of Inl e \<Rightarrow> Inl e | Inr t \<Rightarrow> Inr (c # t)))"

definition py_repr :: "string \<Rightarrow> string" where
  "py_repr v = [CHR 0x27] @ v @ [CHR 0x27]"

text \<open>
  In \<open>release_done\<close> the message \<open>'status must be in %r' % valid_statuses\<close> is an argument
  of \<open>jsonify_assert\<close> and is evaluated before the call; \<open>valid_statuses\<close> is a tuple of two
  strings for one \<open>%r\<close>.
\<close>

definition release_done :: "form \<Rightarrow> db \<Rightarrow> error + db" where
  "release_done f s =
     (case get_release_params f of
        Inl e \<Rightarrow> Inl e
      | Inr (bid, name, number) \<Rightarrow>
          let status = form_get f ''status'';
              valid_statuses = [''good'', ''bad'']
          in (case py_format ''status must be in %r'' (map py_repr valid_statuses) of
                Inl e \<Rightarrow> Inl e
              | Inr message \<Rightarrow>
                  if \<not> (status = Some ''good'' \<or> status = Some ''bad'')
                  then Inl (AssertFailed message)
                  else
                    (case find_release bid name number s of
                       None \<Rightarrow> Inl (AssertFailed ''Release does not exist'')
                     | Some release \<Rightarrow>
                         Inr (session_add_release
                                (release\<lparr>rel_status :=
                                   (if status = Some ''good'' then GOOD else BAD)\<rparr>)
                                s))))"

text \<open>
  \<open>upload\<close> takes \<open>request.files\<close>, a multi-dict from field names to (filename, bytes);
  its \<open>len\<close> counts the distinct field names and \<open>values()[0]\<close> is the first file.
  \<open>hashlib.sha1(data).hexdigest()\<close> and \<open>mimetypes.guess_type\<close> are library functions and
  are parameters of the model.
\<close>

type_synonym files = "(string \<times> (string \<times> string)) list"

definition upload ::
  "(string \<Rightarrow> string) \<Rightarrow> (string \<Rightarrow> string option) \<Rightarrow> nat \<Rightarrow> files \<Rightarrow> db
     \<Rightarrow> error + (string \<times> db)" where
  "upload sha1 guess_type now fs s =
     (if length (remdups (map fst fs)) \<noteq> 1
      then Inl (AssertFailed ''Need exactly one uploaded file'')
      else
        (case fs of
           [] \<Rightarrow> Inl (AssertFailed ''Need exactly one uploaded file'')
         | (_, (filename, data)) # _ \<Rightarrow>
             let sha1sum = sha1 data in
             (case find (\<lambda>a. art_id a = sha1sum) (artifacts s) of
                Some _ \<Rightarrow> Inr (sha1sum, s)
              | None \<Rightarrow>
                  let artifact = \<lparr>art_id = sha1sum, art_created = now, art_data = data,
                                  art_content_type = guess_type filename\<rparr>
                  in Inr (sha1sum, s\<lparr>artifacts := artifacts s @ [artifact]\<rparr>))))"

section \<open>Derived notions and sample states\<close>

text \<open>The spec's words for the candidate number: the greatest number among the releases of
  a build and name, 0 when there is none.\<close>

definition max_number :: "int \<Rightarrow> string \<Rightarrow> db \<Rightarrow> int" where
  "max_number bid name s =
     (let nums = map rel_number
                   (filter (\<lambda>r. rel_build_id r = bid \<and> rel_name r = name) (releases s))
      in if nums = [] then 0 else Max (set nums))"

text \<open>Successive \<open>create_release\<close> requests with the same form, one per timestamp; the
  numbers they return, in order.\<close>

fun create_release_seq :: "nat list \<Rightarrow> form \<Rightarrow> db \<Rightarrow> error + (int list \<times> db)" where
  "create_release_seq [] f s = Inr ([], s)"
| "create_release_seq (now # nows) f s =
     (case create_release now f s of
        Inl e \<Rightarrow> Inl e
      | Inr ((_, _, number), s1) \<Rightarrow>
          (case create_release_seq nows f s1 of
             Inl e \<Rightarrow> Inl e
           | Inr (numbers, s2) \<Rightarrow> Inr (number # numbers, s2)))"

definition db_empty :: db where
  "db_empty = \<lparr>builds = [], releases = [], artifacts = [], runs = [], queue = []\<rparr>"

definition form_v1 :: form where
  "form_v1 = [(''build_id'', ''1''), (''name'', ''v1''), (''number'', ''1'')]"

text \<open>One release of another name, \<open>v0\<close>, still under review.\<close>

definition db_v0 :: db where
  "db_v0 = db_empty\<lparr>releases :=
     [\<lparr>rel_id = 1, rel_name = ''v0'', rel_number = 1, rel_created = 5,
       rel_status = REVIEWING, rel_build_id = 1\<rparr>]\<rparr>"

text \<open>The committed state after a request: the state the handler returned, or the state
  it was given when it raised.\<close>

definition state_after :: "db \<Rightarrow> error + db \<Rightarrow> db" where
  "state_after s res = (case res of Inl e \<Rightarrow> s | Inr s' \<Rightarrow> s')"

definition state_after_response :: "db \<Rightarrow> error + ('a \<times> db) \<Rightarrow> db" where
  "state_after_response s res = (case res of Inl e \<Rightarrow> s | Inr (resp, s') \<Rightarrow> s')"


text \<open>Sample states: one release (build 1, name \<open>v1\<close>, number 1) with one run, in a given
  status, pending flag and diff image; a database with two good releases and a receiving
  one; request forms; and stand-ins for the hash and the content-type guess.\<close>

definition sample_hash :: "string \<Rightarrow> string" where
  "sample_hash d = ''sha1:'' @ d"

definition sample_guess_type :: "string \<Rightarrow> string option" where
  "sample_guess_type filename = (if filename = ''a.png'' then Some ''image/png'' else None)"

definition release_v1 :: "status \<Rightarrow> release_row" where
  "release_v1 st = \<lparr>rel_id = 1, rel_name = ''v1'', rel_number = 1, rel_created = 5,
      rel_status = st, rel_build_id = 1\<rparr>"

definition run_v1 :: "bool \<Rightarrow> string option \<Rightarrow> run_row" where
  "run_v1 pending img = \<lparr>run_id = 1, run_release_id = 1, run_name = ''v1'', run_created = 6,
      run_image = Some ''abc'', run_log = None, run_config = None, run_previous_id = None,
      run_needs_diff = pending, run_diff_image = img, run_diff_log = None\<rparr>"

definition db_v1 :: "status \<Rightarrow> bool \<Rightarrow> string option \<Rightarrow> db" where
  "db_v1 st pending img = db_empty\<lparr>releases := [release_v1 st], runs := [run_v1 pending img]\<rparr>"

definition form_pdiff_sha1 :: form where
  "form_pdiff_sha1 =
     [(''run_id'', ''1''), (''diff_image'', ''da39a3ee5e6b4b0d3255bfef95601890afd80709'')]"

definition form_pdiff_5 :: form where
  "form_pdiff_5 = [(''run_id'', ''1''), (''diff_image'', ''5'')]"

definition form_pdiff_none :: form where
  "form_pdiff_none = [(''run_id'', ''1'')]"

definition form_pdiff_no_diff :: form where
  "form_pdiff_no_diff = [(''run_id'', ''1''), (''no_diff'', ''1'')]"

definition db_baseline :: db where
  "db_baseline = db_empty\<lparr>
     releases :=
       [\<lparr>rel_id = 1, rel_name = ''v1'', rel_number = 1, rel_created = 5,
          rel_status = GOOD, rel_build_id = 1\<rparr>,
        \<lparr>rel_id = 2, rel_name = ''v1'', rel_number = 2, rel_created = 9,
          rel_status = GOOD, rel_build_id = 1\<rparr>,
        \<lparr>rel_id = 3, rel_name = ''v1'', rel_number = 3, rel_created = 12,
          rel_status = RECEIVING, rel_build_id = 1\<rparr>],
     runs :=
       [\<lparr>run_id = 1, run_release_id = 1, run_name = ''v1'', run_created = 6,
          run_image = Some ''abc'', run_log = None, run_config = None, run_previous_id = None,
          run_needs_diff = False, run_diff_image = None, run_diff_log = None\<rparr>,
        \<lparr>run_id = 2, run_release_id = 2, run_name = ''v1'', run_created = 10,
          run_image = Some ''abd'', run_log = None, run_config = None, run_previous_id = Some 1,
          run_needs_diff = False, run_diff_image = None, run_diff_log = None\<rparr>]\<rparr>"

definition form_run3 :: form where
  "form_run3 = [(''build_id'', ''1''), (''name'', ''v1''), (''number'', ''3''), (''image'', ''abe'')]"

definition run3 :: run_row where
  "run3 = \<lparr>run_id = 3, run_release_id = 3, run_name = ''v1'', run_created = 20,
          run_image = Some ''abe'', run_log = None, run_config = None, run_previous_id = Some 2,
          run_needs_diff = True, run_diff_image = None, run_diff_log = None\<rparr>"

section \<open>Auxiliary facts about the queries\<close>

lemma order_by_desc_first_None [simp]: "order_by_desc_first f xs = None \<longleftrightarrow> xs = []"
  by (induction xs) (auto split: option.splits)

lemma order_by_desc_first_max:
  "order_by_desc_first f xs = Some y \<Longrightarrow> y \<in> set xs \<and> (\<forall>x \<in> set xs. f x \<le> f y)"
proof (induction xs arbitrary: y)
  case Nil
  then show ?case by simp
next
  case (Cons a xs)
  show ?case
  proof (cases "order_by_desc_first f xs")
    case None
    with Cons.prems show ?thesis by simp
  next
    case (Some z)
    with Cons.IH have z: "z \<in> set xs" "\<forall>x \<in> set xs. f x \<le> f z" by auto
    from Cons.prems Some z show ?thesis
      by (auto split: if_splits simp: not_less intro: order_trans)
  qed
qed

lemma order_by_desc_first_Max:
  assumes "order_by_desc_first f xs = Some y"
  shows "f y = Max (f ` set xs)"
proof -
  from order_by_desc_first_max [OF assms] have "y \<in> set xs" "\<forall>x \<in> set xs. f x \<le> f y" by auto
  then show ?thesis by (intro Max_eqI [symmetric]) auto
qed


lemma fold_max_ge_init: "(a::int) \<le> fold max ids a"
proof (induction ids arbitrary: a)
  case Nil
  show ?case by simp
next
  case (Cons i ids)
  have "a \<le> max i a" by simp
  also have "\<dots> \<le> fold max ids (max i a)" by (rule Cons.IH)
  finally show ?case by simp
qed

lemma fold_max_ge_elem: "x \<in> set ids \<Longrightarrow> (x::int) \<le> fold max ids a"
proof (induction ids arbitrary: a)
  case Nil
  then show ?case by simp
next
  case (Cons i ids)
  show ?case
  proof (cases "x = i")
    case True
    have "i \<le> max i a" by simp
    also have "\<dots> \<le> fold max ids (max i a)" by (rule fold_max_ge_init)
    finally show ?thesis using True by simp
  next
    case False
    with Cons.prems have "x \<in> set ids" by simp
    then show ?thesis using Cons.IH by simp
  qed
qed

lemma fresh_id_gt: "x \<in> set ids \<Longrightarrow> x < fresh_id ids"
proof (cases ids)
  case Nil
  then show "x \<in> set ids \<Longrightarrow> x < fresh_id ids" by simp
next
  case (Cons i rest)
  assume "x \<in> set ids"
  with Cons have "x = i \<or> x \<in> set rest" by simp
  then have "x \<le> fold max rest i"
    using fold_max_ge_init [of i rest] fold_max_ge_elem [of x rest i] by auto
  with Cons show "x < fresh_id ids" by simp
qed

lemma fresh_id_notin: "fresh_id ids \<notin> set ids"
  using fresh_id_gt [of "fresh_id ids" ids] by auto

lemma fresh_id_map_neq: "x \<in> set xs \<Longrightarrow> fresh_id (map f xs) \<noteq> f x"
  using fresh_id_gt [of "f x" "map f xs"] by auto

lemma fresh_run_id: "x \<in> set rs \<Longrightarrow> fresh_id (map run_id rs) \<noteq> run_id x"
  by (rule fresh_id_map_neq)

lemma fresh_rel_id: "x \<in> set rs \<Longrightarrow> fresh_id (map rel_id rs) \<noteq> rel_id x"
  by (rule fresh_id_map_neq)

lemma find_rel_id: "find (\<lambda>r. rel_id r = i) xs = Some x \<Longrightarrow> rel_id x = i"
  by (auto simp: find_Some_iff)

lemma find_replace_other:
  "i \<noteq> j \<Longrightarrow> rel_id r' = j \<Longrightarrow>
   find (\<lambda>r. rel_id r = i) (map (\<lambda>x. if rel_id x = j then r' else x) xs)
     = find (\<lambda>r. rel_id r = i) xs"
  by (induction xs) auto

lemma find_replace_same:
  "find (\<lambda>r. rel_id r = j) xs = Some x \<Longrightarrow> rel_id r' = j \<Longrightarrow>
   find (\<lambda>r. rel_id r = j) (map (\<lambda>x. if rel_id x = j then r' else x) xs) = Some r'"
  by (induction xs) (auto split: if_splits)

lemma find_replace_exists:
  "r \<in> set xs \<Longrightarrow> rel_id r' = rel_id r \<Longrightarrow>
   find (\<lambda>x. rel_id x = rel_id r) (map (\<lambda>x. if rel_id x = rel_id r then r' else x) xs) = Some r'"
  by (induction xs) auto

lemma find_append_Some: "find P xs = Some x \<Longrightarrow> find P (xs @ ys) = Some x"
  by (induction xs) (auto split: if_splits)

lemma find_release_mem: "find_release bid name number s = Some r \<Longrightarrow> r \<in> set (releases s)"
  by (auto simp: find_release_def find_Some_iff)

section \<open>Evaluation of the sample requests\<close>

lemmas py_int_eval = form_get_int_def form_get_def py_int_def strip_def is_space_def
  digits_value_def is_digit_def

lemma form_v1_build_id: "form_get_int form_v1 ''build_id'' = Some 1"
  by (simp add: form_v1_def py_int_eval)

lemma form_v1_number: "form_get_int form_v1 ''number'' = Some 1"
  by (simp add: form_v1_def py_int_eval)

lemma form_v1_name: "form_get form_v1 ''name'' = Some ''v1''"
  by (simp add: form_v1_def form_get_def)

lemma params_v1: "get_release_params form_v1 = Inr (1, ''v1'', 1)"
  by (simp add: get_release_params_def form_v1_build_id form_v1_number form_v1_name truthy_def)

lemma params_run3: "get_release_params form_run3 = Inr (1, ''v1'', 3)"
  by (simp add: get_release_params_def form_run3_def py_int_eval truthy_def)

lemma report_run3:
  "report_run 20 form_run3 db_baseline
     = Inr (run3, db_baseline\<lparr>runs := runs db_baseline @ [run3], queue := [(''run-pdiff'', 3)]\<rparr>)"
proof -
  have g: "form_get form_run3 ''image'' = Some ''abe''" "form_get form_run3 ''log'' = None"
    "form_get form_run3 ''config'' = None" "form_get form_run3 ''no_diff'' = None"
    "form_get form_run3 ''diff_image'' = None" "form_get form_run3 ''diff_log'' = None"
    by (simp_all add: form_run3_def form_get_def)
  show ?thesis
    by (simp add: report_run_def params_run3 g find_release_def db_baseline_def db_empty_def
        truthy_def run3_def work_queue_add_def Let_def)
qed

lemmas sample_defs = db_v1_def db_empty_def release_v1_def run_v1_def
lemmas handler_eval = report_pdiff_def check_release_done_processing_def
  release_query_get_def session_add_run_def session_add_release_def runs_done_def
  get_release_params_def find_release_def truthy_def Let_def

lemma find_v1: "find (\<lambda>r. rel_id r = 1) (releases (db_v1 st p img)) = Some (release_v1 st)"
  by (simp add: sample_defs)

lemma find_release_v1: "find_release 1 ''v1'' 1 (db_v1 st p img) = Some (release_v1 st)"
  by (simp add: sample_defs find_release_def)

lemma column_text_5: "column_text 5 = ''5''"
  by (simp add: column_text_def nat_digits.simps [of 5])

lemma pdiff_sha1:
  "report_pdiff form_pdiff_sha1 (db_v1 PROCESSING True None) = Inr (db_v1 PROCESSING True None)"
  by (simp add: form_pdiff_sha1_def sample_defs handler_eval py_int_eval)

lemma pdiff_5:
  "report_pdiff form_pdiff_5 (db_v1 PROCESSING True img)
     = (if truthy img then Inr (db_v1 REVIEWING False (Some ''5''))
        else Inr (db_v1 PROCESSING True (Some ''5'')))"
  by (simp add: form_pdiff_5_def sample_defs handler_eval py_int_eval column_text_5)

lemma pdiff_none:
  "report_pdiff form_pdiff_none (db_v1 st pending img)
     = (if truthy img \<and> st = PROCESSING then Inr (db_v1 REVIEWING False None)
        else Inr (db_v1 st (\<not> truthy img) None))"
  by (simp add: form_pdiff_none_def sample_defs handler_eval py_int_eval)

lemma pdiff_no_diff:
  "report_pdiff form_pdiff_no_diff (db_v1 st True None)
     = Inr (db_v1 (if st = PROCESSING then REVIEWING else st) False None)"
  by (simp add: form_pdiff_no_diff_def sample_defs handler_eval py_int_eval)

lemma runs_done_v1: "runs_done form_v1 (db_v1 st pending img) = Inl DriverError"
  by (simp add: form_v1_def sample_defs handler_eval py_int_eval)

section \<open>Release numbering (\<open>create_release\<close>)\<close>

lemma create_release_eq:
  assumes "form_get_int f ''build_id'' = Some bid" "form_get f ''name'' = Some name" "name \<noteq> []"
  shows "create_release now f s =
    Inr ((bid, name, 1 + max_number bid name s),
         s\<lparr>releases := releases s @
            [\<lparr>rel_id = fresh_id (map rel_id (releases s)), rel_name = name,
              rel_number = 1 + max_number bid name s, rel_created = now,
              rel_status = RECEIVING, rel_build_id = bid\<rparr>]\<rparr>)"
proof (cases "filter (\<lambda>r. rel_build_id r = bid \<and> rel_name r = name) (releases s) = []")
  case True
  with assms show ?thesis
    by (simp add: create_release_def truthy_def max_number_def)
next
  case False
  then obtain c where c: "order_by_desc_first rel_number
      (filter (\<lambda>r. rel_build_id r = bid \<and> rel_name r = name) (releases s)) = Some c"
    by (cases "order_by_desc_first rel_number
      (filter (\<lambda>r. rel_build_id r = bid \<and> rel_name r = name) (releases s))") auto
  from order_by_desc_first_Max [OF c]
  have "rel_number c = max_number bid name s"
    using False by (simp add: max_number_def)
  with assms c show ?thesis
    by (simp add: create_release_def truthy_def Let_def)
qed

lemma max_number_after:
  "max_number bid name (s\<lparr>releases := releases s @
       [\<lparr>rel_id = i, rel_name = name, rel_number = 1 + max_number bid name s,
         rel_created = now, rel_status = st, rel_build_id = bid\<rparr>]\<rparr>)
   = 1 + max_number bid name s"
proof (cases "filter (\<lambda>r. rel_build_id r = bid \<and> rel_name r = name) (releases s) = []")
  case True
  then show ?thesis by (simp add: max_number_def)
next
  case False
  let ?N = "rel_number ` {x \<in> set (releases s). rel_build_id x = bid \<and> rel_name x = name}"
  have ne: "?N \<noteq> {}" using False by (auto simp: filter_empty_conv)
  have "Max (insert (1 + Max ?N) ?N) = max (1 + Max ?N) (Max ?N)"
    using ne by (intro Max_insert) auto
  then show ?thesis using False by (simp add: max_number_def)
qed

lemma create_release_seq_eq:
  assumes "form_get_int f ''build_id'' = Some bid" "form_get f ''name'' = Some name" "name \<noteq> []"
  shows "\<exists>s'. create_release_seq nows f s =
    Inr (map (\<lambda>i. max_number bid name s + 1 + int i) [0..<length nows], s')"
proof (induction nows arbitrary: s)
  case Nil
  show ?case by simp
next
  case (Cons now nows)
  let ?s1 = "s\<lparr>releases := releases s @
            [\<lparr>rel_id = fresh_id (map rel_id (releases s)), rel_name = name,
              rel_number = 1 + max_number bid name s, rel_created = now,
              rel_status = RECEIVING, rel_build_id = bid\<rparr>]\<rparr>"
  from Cons.IH [of ?s1] obtain s' where
    s': "create_release_seq nows f ?s1 =
      Inr (map (\<lambda>i. max_number bid name ?s1 + 1 + int i) [0..<length nows], s')" by blast
  have m: "max_number bid name ?s1 = 1 + max_number bid name s" by (rule max_number_after)
  have "map (\<lambda>i. max_number bid name s + 1 + int i) [0..<length (now # nows)]
     = (max_number bid name s + 1) # map (\<lambda>i. max_number bid name ?s1 + 1 + int i) [0..<length nows]"
    unfolding m by (simp add: upt_rec [of 0] map_Suc_upt [symmetric] del: upt_Suc)
  then show ?case
    using s' by (simp add: create_release_eq [OF assms] del: upt_Suc)
qed

text \<open>
  Claim C8. A \<open>create_release\<close> request that passes validation (a \<open>build_id\<close> that parses
  and a non-empty \<open>name\<close>) returns the number 1 + max(existing numbers for that build and
  name, default 0). Hence successive requests for one build and name return consecutive
  numbers with no repeat and no gap: the \<open>k\<close>-th of them returns max + \<open>k\<close>, that is
  1, 2, 3, \<dots> when no release of that build and name existed before.
\<close>

theorem create_release_numbering:
  assumes "form_get_int f ''build_id'' = Some bid"
    and "form_get f ''name'' = Some name" and "name \<noteq> []"
  shows "(\<exists>s'. create_release now f s = Inr ((bid, name, 1 + max_number bid name s), s')) \<and>
         (\<exists>s'. create_release_seq nows f s =
            Inr (map (\<lambda>i. max_number bid name s + 1 + int i) [0..<length nows], s'))"
  using create_release_eq [OF assms] create_release_seq_eq [OF assms] by simp

theorem create_release_numbering_witness:
  "(\<exists>s'. create_release 10 form_v1 db_empty = Inr ((1, ''v1'', 1), s')) \<and>
   (\<exists>s'. create_release_seq [10, 20, 30] form_v1 db_empty = Inr ([1, 2, 3], s'))"
  using create_release_numbering [OF form_v1_build_id form_v1_name, of 10 db_empty "[10, 20, 30]"]
  by (simp add: max_number_def db_empty_def upt_rec)

text \<open>
  Claim C10. A \<open>create_release\<close> request that passes validation succeeds, and a request that
  succeeds appends exactly one release, in state receiving and under a fresh id, to the
  table of releases; every release that existed keeps all its columns (so the good releases
  are the same as before: no candidate of any name is promoted), and the builds, runs,
  artifacts and the work queue are unchanged.
\<close>

theorem create_release_frame:
  "(form_get_int f ''build_id'' \<noteq> None \<and> truthy (form_get f ''name'')
      \<longrightarrow> (\<exists>resp s'. create_release now f s = Inr (resp, s'))) \<and>
   (\<forall>resp s'. create_release now f s = Inr (resp, s') \<longrightarrow>
      (\<exists>r. releases s' = releases s @ [r] \<and> rel_status r = RECEIVING
           \<and> rel_id r \<notin> set (map rel_id (releases s))) \<and>
      filter (\<lambda>r. rel_status r = GOOD) (releases s')
        = filter (\<lambda>r. rel_status r = GOOD) (releases s) \<and>
      builds s' = builds s \<and> runs s' = runs s \<and> artifacts s' = artifacts s
        \<and> queue s' = queue s)"
  by (auto simp: create_release_def Let_def dest: fresh_rel_id split: option.splits if_splits)

theorem create_release_frame_witness:
  "\<exists>resp s'. create_release 10 form_v1 db_v0 = Inr (resp, s') \<and>
      map rel_status (releases s') = [REVIEWING, RECEIVING] \<and>
      filter (\<lambda>r. rel_status r = GOOD) (releases s') = []"
  using create_release_frame [of form_v1 10 db_v0] form_v1_build_id form_v1_name
  by (auto simp: truthy_def db_v0_def db_empty_def)

section \<open>The artifact store (\<open>upload\<close>)\<close>

lemma upload_eq:
  assumes "length (remdups (map fst fs)) = 1" and "fs = (k, fname, d) # rest"
  shows "upload sha1 gt now fs s =
    Inr (sha1 d,
      if \<exists>a \<in> set (artifacts s). art_id a = sha1 d then s
      else s\<lparr>artifacts := artifacts s @
             [\<lparr>art_id = sha1 d, art_created = now, art_data = d,
               art_content_type = gt fname\<rparr>]\<rparr>)"
proof (cases "find (\<lambda>a. art_id a = sha1 d) (artifacts s)")
  case None
  then have "\<not> (\<exists>a \<in> set (artifacts s). art_id a = sha1 d)"
    by (simp add: find_None_iff)
  with None assms show ?thesis by (simp add: upload_def Let_def)
next
  case (Some a)
  then have "\<exists>a \<in> set (artifacts s). art_id a = sha1 d"
    by (auto simp: find_Some_iff)
  with Some assms show ?thesis by (simp add: upload_def Let_def)
qed

text \<open>
  Claim C7. An upload request carrying one file with bytes \<open>d\<close> returns the content hash
  of \<open>d\<close> as the identity. A second upload of the same bytes (under any field name, file
  name or time) returns the same identity and commits the very state the first upload left:
  no second artifact is stored and the stored bytes and content type stay as they are. After
  the first upload the table holds the old artifacts and, only when none had that identity,
  one new artifact with the bytes and the content type guessed from the file name.
\<close>

theorem upload_dedup:
  assumes "length (remdups (map fst fs)) = 1" and "fs = (k, fname, d) # rest"
    and "length (remdups (map fst fs2)) = 1" and "fs2 = (k2, fname2, d) # rest2"
  shows "\<exists>s1. upload sha1 gt now fs s = Inr (sha1 d, s1) \<and>
           upload sha1 gt now2 fs2 s1 = Inr (sha1 d, s1) \<and>
           artifacts s1 =
             (if \<exists>a \<in> set (artifacts s). art_id a = sha1 d then artifacts s
              else artifacts s @ [\<lparr>art_id = sha1 d, art_created = now, art_data = d,
                                   art_content_type = gt fname\<rparr>]) \<and>
           length (filter (\<lambda>a. art_id a = sha1 d) (artifacts s1))
             = max 1 (length (filter (\<lambda>a. art_id a = sha1 d) (artifacts s))) \<and>
           builds s1 = builds s \<and> releases s1 = releases s \<and> runs s1 = runs s
             \<and> queue s1 = queue s"
proof (cases "\<exists>a \<in> set (artifacts s). art_id a = sha1 d")
  case True
  then have "filter (\<lambda>a. art_id a = sha1 d) (artifacts s) \<noteq> []"
    by (auto simp: filter_empty_conv)
  then have "1 \<le> length (filter (\<lambda>a. art_id a = sha1 d) (artifacts s))"
    by (cases "filter (\<lambda>a. art_id a = sha1 d) (artifacts s)") auto
  with True show ?thesis
    by (simp add: upload_eq [OF assms(1,2)] upload_eq [OF assms(3,4)] max_def)
next
  case False
  then have "filter (\<lambda>a. art_id a = sha1 d) (artifacts s) = []"
    by (auto simp: filter_empty_conv)
  with False show ?thesis
    by (simp add: upload_eq [OF assms(1,2)] upload_eq [OF assms(3,4)])
qed

theorem upload_dedup_witness:
  "\<exists>s1. upload sample_hash sample_guess_type 3 [(''file'', ''a.png'', ''PNGDATA'')] db_empty
            = Inr (''sha1:PNGDATA'', s1) \<and>
         upload sample_hash sample_guess_type 4 [(''f'', ''b.txt'', ''PNGDATA'')] s1
            = Inr (''sha1:PNGDATA'', s1) \<and>
         artifacts s1 = [\<lparr>art_id = ''sha1:PNGDATA'', art_created = 3, art_data = ''PNGDATA'',
                           art_content_type = Some ''image/png''\<rparr>]"
  using upload_dedup [of "[(''file'', ''a.png'', ''PNGDATA'')]" "''file''" "''a.png''" "''PNGDATA''" "[]"
      "[(''f'', ''b.txt'', ''PNGDATA'')]" "''f''" "''b.txt''" "[]" sample_hash sample_guess_type 3 db_empty 4]
  by (auto simp: sample_hash_def sample_guess_type_def db_empty_def)

section \<open>The run ledger (\<open>report_run\<close>)\<close>

text \<open>
  Claim C9. A \<open>report_run\<close> request whose release exists and whose image is supplied
  succeeds. The run it returns has \<open>needs_diff\<close> = not (no_diff supplied or diff_image
  supplied or diff_log supplied), where a parameter is supplied when the form carries a
  non-empty value for it (the truth value Python's \<open>or\<close> reads). The work queue grows by
  exactly one \<open>run-pdiff\<close> job carrying the new run's id when \<open>needs_diff\<close> is true and
  stays as it was when it is false; the run is appended under an id no run had before.
\<close>

theorem report_run_needs_diff:
  "(get_release_params f = Inr (bid, name, number) \<and> find_release bid name number s \<noteq> None
      \<and> truthy (form_get f ''image'')
      \<longrightarrow> (\<exists>run s'. report_run now f s = Inr (run, s'))) \<and>
   (\<forall>run s'. report_run now f s = Inr (run, s') \<longrightarrow>
      run_needs_diff run =
        (\<not> (truthy (form_get f ''no_diff'') \<or> truthy (form_get f ''diff_image'')
            \<or> truthy (form_get f ''diff_log''))) \<and>
      queue s' = queue s @ (if run_needs_diff run then [(''run-pdiff'', run_id run)] else []) \<and>
      runs s' = runs s @ [run] \<and>
      run_id run \<notin> set (map run_id (runs s)))"
  by (auto simp: report_run_def Let_def work_queue_add_def dest: fresh_run_id
      split: sum.splits option.splits if_splits prod.splits)

theorem report_run_needs_diff_witness:
  "get_release_params form_run3 = Inr (1, ''v1'', 3) \<and>
   (\<exists>run s'. report_run 20 form_run3 db_baseline = Inr (run, s') \<and>
      run_needs_diff run \<and> queue s' = [(''run-pdiff'', 3)] \<and> run_id run = 3)"
  using report_run_needs_diff [of form_run3 1 "''v1''" 3 db_baseline 20]
  by (simp add: report_run3 params_run3) (simp add: run3_def)




section \<open>The diff completion gate (\<open>report_pdiff\<close>)\<close>

lemma check_Id_eq:
  "check_release_done_processing (Id i) s =
     (case find (\<lambda>r. rel_id r = i) (releases s) of
        None \<Rightarrow> Inr (False, s)
      | Some rel \<Rightarrow>
          if rel_status rel = PROCESSING \<and>
             \<not> list_ex run_needs_diff (filter (\<lambda>run. run_release_id run = i) (runs s))
          then Inr (True, session_add_release (rel\<lparr>rel_status := REVIEWING\<rparr>) s)
          else Inr (False, s))"
  by (auto simp: check_release_done_processing_def release_query_get_def
      dest: find_rel_id split: option.splits)

lemma report_pdiff_eq:
  assumes "form_get_int f ''run_id'' = Some rid"
    and "find (\<lambda>r. run_id r = rid) (runs s) = Some run"
  shows "report_pdiff f s =
    (let run3 = run\<lparr>run_needs_diff :=
                     (\<not> (truthy (form_get f ''no_diff'') \<or> truthy (run_diff_image run)
                          \<or> truthy (run_diff_log run))),
                   run_diff_image := map_option column_text (form_get_int f ''diff_image''),
                   run_diff_log := map_option column_text (form_get_int f ''diff_log'')\<rparr>;
         s1 = session_add_run run3 s
     in case find (\<lambda>r. rel_id r = run_release_id run) (releases s) of
          None \<Rightarrow> Inr s1
        | Some rel \<Rightarrow>
            if rel_status rel = PROCESSING \<and>
               \<not> list_ex run_needs_diff
                    (filter (\<lambda>r. run_release_id r = run_release_id run) (runs s1))
            then Inr (session_add_release (rel\<lparr>rel_status := REVIEWING\<rparr>) s1)
            else Inr s1)"
  using assms
  by (simp add: report_pdiff_def Let_def check_Id_eq session_add_run_def split: option.splits)

lemma report_pdiff_releases:
  assumes "form_get_int f ''run_id'' = Some rid"
    and "find (\<lambda>r. run_id r = rid) (runs s) = Some run"
  shows "\<exists>s'. report_pdiff f s = Inr s' \<and>
    (case find (\<lambda>r. rel_id r = run_release_id run) (releases s) of
       None \<Rightarrow> releases s' = releases s
     | Some rel \<Rightarrow>
         find (\<lambda>r. rel_id r = run_release_id run) (releases s') =
           Some (if rel_status rel = PROCESSING \<and>
                    (\<forall>r \<in> set (runs s'). run_release_id r = run_release_id run
                        \<longrightarrow> \<not> run_needs_diff r)
                 then rel\<lparr>rel_status := REVIEWING\<rparr> else rel)) \<and>
    (\<forall>i. i \<noteq> run_release_id run \<longrightarrow>
        find (\<lambda>r. rel_id r = i) (releases s') = find (\<lambda>r. rel_id r = i) (releases s)) \<and>
    map rel_id (releases s') = map rel_id (releases s)"
proof (cases "find (\<lambda>r. rel_id r = run_release_id run) (releases s)")
  case None
  then show ?thesis
    by (simp add: report_pdiff_eq [OF assms] Let_def session_add_run_def)
next
  case (Some rel)
  note rid = find_rel_id [OF Some]
  have ids: "map rel_id (map (\<lambda>x. if rel_id x = run_release_id run
                 then rel\<lparr>rel_status := REVIEWING\<rparr> else x) (releases s))
             = map rel_id (releases s)"
    using rid by (induction "releases s") auto
  show ?thesis
    using Some rid ids
    by (auto simp: report_pdiff_eq [OF assms] Let_def session_add_run_def
        session_add_release_def list_ex_iff find_replace_other find_replace_same)
qed

text \<open>
  Claim C3. A \<open>report_pdiff\<close> request for an existing run succeeds. The release owning the
  run becomes reviewing exactly when it is processing and, after the update of the run, no
  run of that release has \<open>needs_diff\<close> set; in every other case (release receiving,
  reviewing, good or bad, or some run still pending) its row is left as it was. No other
  release changes.
\<close>

theorem report_pdiff_gate:
  assumes "form_get_int f ''run_id'' = Some rid"
    and "find (\<lambda>r. run_id r = rid) (runs s) = Some run"
  shows "\<exists>s'. report_pdiff f s = Inr s' \<and>
    (case find (\<lambda>r. rel_id r = run_release_id run) (releases s) of
       None \<Rightarrow> releases s' = releases s
     | Some rel \<Rightarrow>
         find (\<lambda>r. rel_id r = run_release_id run) (releases s') =
           Some (if rel_status rel = PROCESSING \<and>
                    (\<forall>r \<in> set (runs s'). run_release_id r = run_release_id run
                        \<longrightarrow> \<not> run_needs_diff r)
                 then rel\<lparr>rel_status := REVIEWING\<rparr> else rel)) \<and>
    (\<forall>i. i \<noteq> run_release_id run \<longrightarrow>
        find (\<lambda>r. rel_id r = i) (releases s') = find (\<lambda>r. rel_id r = i) (releases s)) \<and>
    map rel_id (releases s') = map rel_id (releases s)"
  using assms by (rule report_pdiff_releases)

theorem report_pdiff_gate_witness:
  "form_get_int form_pdiff_no_diff ''run_id'' = Some 1 \<and>
   find (\<lambda>r. run_id r = 1) (runs (db_v1 PROCESSING True None)) = Some (run_v1 True None) \<and>
   report_pdiff form_pdiff_no_diff (db_v1 PROCESSING True None)
     = Inr (db_v1 REVIEWING False None) \<and>
   report_pdiff form_pdiff_no_diff (db_v1 RECEIVING True None)
     = Inr (db_v1 RECEIVING False None)"
proof -
  have a: "form_get_int form_pdiff_no_diff ''run_id'' = Some 1"
    by (simp add: form_pdiff_no_diff_def py_int_eval)
  have b: "find (\<lambda>r. run_id r = 1) (runs (db_v1 PROCESSING True None)) = Some (run_v1 True None)"
    by (simp add: sample_defs)
  note c = pdiff_no_diff
  show ?thesis
    using report_pdiff_gate [OF a b] by (simp add: a b c)
qed

text \<open>
  Claim C2 (the code departs from it). \<open>report_pdiff\<close> computes \<open>needs_diff\<close> from the diff
  columns the run had before the request, and reads the reported ids with \<open>type=int\<close>. On a
  pending run of a processing release, a report carrying a SHA-1 artifact id as
  \<open>diff_image\<close> changes nothing: the run stays pending and no diff image is recorded. A
  report carrying \<open>diff_image = 5\<close> records 5 and leaves the run pending.
\<close>

theorem report_pdiff_ignores_reported_diff:
  "(report_pdiff form_pdiff_sha1 (db_v1 PROCESSING True None)
          = Inr (db_v1 PROCESSING True None)) \<and>
   (report_pdiff form_pdiff_5 (db_v1 PROCESSING True None)
          = Inr (db_v1 PROCESSING True (Some ''5''))) \<and>
   run_needs_diff (run_v1 True (Some ''5'')) \<and>
   run_diff_image (run_v1 True None) = None"
  by (simp add: pdiff_sha1 pdiff_5 truthy_def) (simp add: run_v1_def)

text \<open>
  Claim C6 (the code departs from it). Repeating a \<open>report_pdiff\<close> request is not
  idempotent. Reporting \<open>diff_image = 5\<close> for the pending run of a processing release
  leaves the run pending, and the same request again resolves it and moves the release to
  reviewing. From the state after the first report, a request with no diff parameter
  resolves the last pending run and moves the release to reviewing; the same request again
  sets the run back to pending.
\<close>

theorem report_pdiff_repeat_changes:
  "(report_pdiff form_pdiff_5 (db_v1 PROCESSING True None)
          = Inr (db_v1 PROCESSING True (Some ''5''))) \<and>
   (report_pdiff form_pdiff_5 (db_v1 PROCESSING True (Some ''5''))
          = Inr (db_v1 REVIEWING False (Some ''5''))) \<and>
   (report_pdiff form_pdiff_none (db_v1 PROCESSING True (Some ''5''))
          = Inr (db_v1 REVIEWING False None)) \<and>
   (report_pdiff form_pdiff_none (db_v1 REVIEWING False None)
          = Inr (db_v1 REVIEWING True None)) \<and>
   db_v1 PROCESSING True (Some ''5'') \<noteq> db_v1 REVIEWING False (Some ''5'') \<and>
   db_v1 REVIEWING False None \<noteq> db_v1 REVIEWING True None"
  by (simp add: pdiff_5 pdiff_none truthy_def) (simp add: sample_defs)

section \<open>Marking the runs complete (\<open>runs_done\<close>)\<close>

lemma runs_done_raises: "runs_done f s \<noteq> Inr s'"
  by (simp add: runs_done_def check_release_done_processing_def release_query_get_def Let_def
      split: sum.splits option.splits prod.splits)

lemma runs_done_eq:
  assumes "get_release_params f = Inr (bid, name, number)"
    and "find_release bid name number s = Some release"
  shows "runs_done f s = Inl DriverError"
  using assms
  by (simp add: runs_done_def check_release_done_processing_def release_query_get_def Let_def)

text \<open>
  Claim C1 (the code departs from it). \<open>runs_done\<close> hands the \<open>Release\<close> object, not its
  id, to \<open>check_release_done_processing\<close>, whose lookup by primary key then raises. For a
  receiving release whose only run is resolved, the request fails before the commit: the
  release is still receiving after the call, neither processing nor reviewing. No
  \<open>runs_done\<close> request, on any form and state, ever commits.
\<close>

theorem runs_done_never_reviews:
  "runs_done form_v1 (db_v1 RECEIVING False None) = Inl DriverError \<and>
   state_after (db_v1 RECEIVING False None) (runs_done form_v1 (db_v1 RECEIVING False None))
     = db_v1 RECEIVING False None \<and>
   map rel_status (releases (db_v1 RECEIVING False None)) = [RECEIVING] \<and>
   map run_needs_diff (runs (db_v1 RECEIVING False None)) = [False] \<and>
   (\<forall>f s s'. runs_done f s \<noteq> Inr s')"
  by (simp add: runs_done_v1 runs_done_raises state_after_def) (simp add: sample_defs)

section \<open>Finalizing a release (\<open>release_done\<close>)\<close>

lemma status_message_raises:
  "py_format ''status must be in %r'' [py_repr ''good'', py_repr ''bad''] = Inl TypeError"
  by (simp add: py_repr_def)

lemma release_done_raises: "release_done f s \<noteq> Inr s'"
  by (simp add: release_done_def status_message_raises Let_def del: py_format.simps
      split: sum.splits prod.splits)

section \<open>Terminal releases\<close>

lemma create_build_releases: "create_build now f s = Inr (resp, s') \<Longrightarrow> releases s' = releases s"
  by (auto simp: create_build_def Let_def split: if_splits)

lemma create_release_releases:
  "create_release now f s = Inr (resp, s') \<Longrightarrow> \<exists>r. releases s' = releases s @ [r]"
  by (auto simp: create_release_def Let_def split: option.splits if_splits)

lemma report_run_releases: "report_run now f s = Inr (run, s') \<Longrightarrow> releases s' = releases s"
  by (auto simp: report_run_def Let_def work_queue_add_def
      split: sum.splits option.splits if_splits prod.splits)

lemma upload_releases: "upload sha1 gt now fs s = Inr (h, s') \<Longrightarrow> releases s' = releases s"
  by (auto simp: upload_def Let_def split: list.splits option.splits if_splits prod.splits)

lemma report_pdiff_terminal:
  assumes "report_pdiff f s = Inr s'" and "find (\<lambda>r. rel_id r = i) (releases s) = Some r"
    and "rel_status r = GOOD \<or> rel_status r = BAD"
  shows "find (\<lambda>r. rel_id r = i) (releases s') = Some r"
proof -
  from assms(1) obtain rid run where r: "form_get_int f ''run_id'' = Some rid"
      "find (\<lambda>r. run_id r = rid) (runs s) = Some run"
    by (auto simp: report_pdiff_def Let_def split: option.splits)
  from report_pdiff_releases [OF r] assms(1) have
    g: "case find (\<lambda>r. rel_id r = run_release_id run) (releases s) of
       None \<Rightarrow> releases s' = releases s
     | Some rel \<Rightarrow>
         find (\<lambda>r. rel_id r = run_release_id run) (releases s') =
           Some (if rel_status rel = PROCESSING \<and>
                    (\<forall>r \<in> set (runs s'). run_release_id r = run_release_id run
                        \<longrightarrow> \<not> run_needs_diff r)
                 then rel\<lparr>rel_status := REVIEWING\<rparr> else rel)"
    and o: "\<forall>i. i \<noteq> run_release_id run \<longrightarrow>
        find (\<lambda>r. rel_id r = i) (releases s') = find (\<lambda>r. rel_id r = i) (releases s)"
    by auto
  show ?thesis
  proof (cases "i = run_release_id run")
    case True
    with g assms(2,3) show ?thesis by auto
  next
    case False
    with o assms(2) show ?thesis by simp
  qed
qed

text \<open>
  Claim C5. For a release in a terminal state (good or bad), no request to \<open>create_build\<close>,
  \<open>create_release\<close>, \<open>report_run\<close>, \<open>report_pdiff\<close>, \<open>runs_done\<close> or \<open>upload\<close> changes its
  status: whether the request commits or raises, the release's row in the committed state
  after it is the row before it. In particular \<open>report_pdiff\<close> moves only a processing
  release, and \<open>runs_done\<close>, which has no guard on the state, never moves a terminal release
  back to processing because its request raises before the commit.
\<close>

theorem terminal_release_frame:
  assumes "find (\<lambda>r. rel_id r = i) (releases s) = Some r"
    and "rel_status r = GOOD \<or> rel_status r = BAD"
  shows
   "find (\<lambda>r. rel_id r = i)
      (releases (state_after_response s (create_build now f s))) = Some r \<and>
    find (\<lambda>r. rel_id r = i)
      (releases (state_after_response s (create_release now f s))) = Some r \<and>
    find (\<lambda>r. rel_id r = i)
      (releases (state_after_response s (report_run now f s))) = Some r \<and>
    find (\<lambda>r. rel_id r = i)
      (releases (state_after s (report_pdiff fd s))) = Some r \<and>
    find (\<lambda>r. rel_id r = i)
      (releases (state_after s (runs_done f s))) = Some r \<and>
    find (\<lambda>r. rel_id r = i)
      (releases (state_after_response s (upload sha1 gt now fs s))) = Some r"
proof (intro conjI)
  show "find (\<lambda>r. rel_id r = i)
      (releases (state_after_response s (create_build now f s))) = Some r"
    using assms(1)
    by (auto simp: state_after_response_def dest: create_build_releases split: sum.splits)
next
  show "find (\<lambda>r. rel_id r = i)
      (releases (state_after_response s (create_release now f s))) = Some r"
    using assms(1)
    by (auto simp: state_after_response_def find_append_Some
        dest!: create_release_releases split: sum.splits)
next
  show "find (\<lambda>r. rel_id r = i)
      (releases (state_after_response s (report_run now f s))) = Some r"
    using assms(1)
    by (auto simp: state_after_response_def dest: report_run_releases split: sum.splits)
next
  show "find (\<lambda>r. rel_id r = i) (releases (state_after s (report_pdiff fd s))) = Some r"
  proof (cases "report_pdiff fd s")
    case (Inl e)
    with assms(1) show ?thesis by (simp add: state_after_def)
  next
    case (Inr s')
    from report_pdiff_terminal [OF Inr assms] Inr show ?thesis by (simp add: state_after_def)
  qed
next
  show "find (\<lambda>r. rel_id r = i) (releases (state_after s (runs_done f s))) = Some r"
    using assms(1) by (cases "runs_done f s") (simp_all add: state_after_def runs_done_raises)
next
  show "find (\<lambda>r. rel_id r = i)
      (releases (state_after_response s (upload sha1 gt now fs s))) = Some r"
    using assms(1)
    by (auto simp: state_after_response_def dest: upload_releases split: sum.splits)
qed

theorem terminal_release_frame_witness:
  "find (\<lambda>r. rel_id r = 1) (releases (db_v1 GOOD True None)) = Some (release_v1 GOOD) \<and>
   rel_status (release_v1 GOOD) = GOOD \<and>
   report_pdiff form_pdiff_no_diff (db_v1 GOOD True None) = Inr (db_v1 GOOD False None) \<and>
   find (\<lambda>r. rel_id r = 1)
     (releases (state_after (db_v1 GOOD True None)
        (report_pdiff form_pdiff_no_diff (db_v1 GOOD True None)))) = Some (release_v1 GOOD) \<and>
   runs_done form_v1 (db_v1 GOOD True None) = Inl DriverError \<and>
   find (\<lambda>r. rel_id r = 1)
     (releases (state_after (db_v1 GOOD True None) (runs_done form_v1 (db_v1 GOOD True None))))
       = Some (release_v1 GOOD)"
proof -
  have st: "rel_status (release_v1 GOOD) = GOOD \<or> rel_status (release_v1 GOOD) = BAD"
    by (simp add: release_v1_def)
  show ?thesis
    using terminal_release_frame [OF find_v1 [of GOOD True None] st,
        of 0 form_v1 form_pdiff_no_diff "\<lambda>x. x" "\<lambda>x. None" "[]"]
    by (simp add: find_v1 pdiff_no_diff runs_done_v1) (simp add: release_v1_def)
qed

end
